theory Spec2Isabelle
  imports Main
begin

section \<open>Python strings and paths\<close>

text \<open>
  Strings are \<^typ>\<open>string\<close> (lists of \<^typ>\<open>char\<close>); the paths and URLs of the
  two modules are ASCII. \<open>str.lower\<close> is modelled on the ASCII letters and leaves every
  other character as it is.
\<close>

definition ascii_upper :: string where
  "ascii_upper = ''ABCDEFGHIJKLMNOPQRSTUVWXYZ''"

definition ascii_lower :: string where
  "ascii_lower = ''abcdefghijklmnopqrstuvwxyz''"

definition lower_char :: "char \<Rightarrow> char" where
  "lower_char c = (case map_of (zip ascii_upper ascii_lower) c of Some d \<Rightarrow> d | None \<Rightarrow> c)"

definition lower :: "string \<Rightarrow> string" where
  "lower s = map lower_char s"

text \<open>\<open>s.split(sep)\<close> for a one-character separator: never the empty list.\<close>

fun split_on :: "char \<Rightarrow> string \<Rightarrow> string list" where
  "split_on sep [] = [[]]"
| "split_on sep (c # cs) =
     (if c = sep then [] # split_on sep cs
      else (case split_on sep cs of [] \<Rightarrow> [[c]] | w # ws \<Rightarrow> (c # w) # ws))"

text \<open>\<open>sep.join(parts)\<close>.\<close>

fun join_with :: "string \<Rightarrow> string list \<Rightarrow> string" where
  "join_with sep [] = []"
| "join_with sep [x] = x"
| "join_with sep (x # y # ys) = x @ sep @ join_with sep (y # ys)"

text \<open>
  \<open>s.rfind(c)\<close> for a one-character \<open>c\<close>: the index of the last occurrence, or \<open>-1\<close>.
\<close>

definition rfind :: "string \<Rightarrow> char \<Rightarrow> int" where
  "rfind s c =
     (if c \<in> set s then int (length s) - 1 - int (length (takeWhile (\<lambda>x. x \<noteq> c) (rev s)))
      else - 1)"

text \<open>
  \<open>s.replace(old, new)\<close>: the non-overlapping occurrences of \<open>old\<close>, found from the
  left, are replaced. With an empty \<open>old\<close> Python puts \<open>new\<close> before every character
  and at the end.
\<close>

fun replace_from :: "string \<Rightarrow> string \<Rightarrow> nat \<Rightarrow> string \<Rightarrow> string" where
  "replace_from old new skip [] = []"
| "replace_from old new (Suc k) (c # cs) = replace_from old new k cs"
| "replace_from old new 0 (c # cs) =
     (if take (length old) (c # cs) = old
      then new @ replace_from old new (length old - 1) cs
      else c # replace_from old new 0 cs)"

definition str_replace :: "string \<Rightarrow> string \<Rightarrow> string \<Rightarrow> string" where
  "str_replace s old new =
     (if old = [] then new @ concat (map (\<lambda>c. c # new) s)
      else replace_from old new 0 s)"

subsection \<open>pathlib\<close>

text \<open>
  \<open>Path(s)\<close> on a POSIX system: the root is \<open>/\<close>, or \<open>//\<close> for exactly two leading
  slashes; the components are the pieces between slashes, without the empty ones and
  without \<open>.\<close>.
\<close>

datatype pure_path = PurePath (root: string) (tail: "string list")

definition Path :: "string \<Rightarrow> pure_path" where
  "Path s =
     PurePath
       (if take 1 s = ''/''
        then (if take 1 (drop 1 s) = ''/'' \<and> take 1 (drop 2 s) \<noteq> ''/'' then ''//'' else ''/'')
        else '''')
       (filter (\<lambda>x. x \<noteq> '''' \<and> x \<noteq> ''.'') (split_on CHR ''/'' s))"

definition path_str :: "pure_path \<Rightarrow> string" where
  "path_str p =
     (if root p = '''' \<and> tail p = [] then ''.''
      else root p @ join_with ''/'' (tail p))"

definition path_name :: "pure_path \<Rightarrow> string" where
  "path_name p = (if tail p = [] then '''' else last (tail p))"

text \<open>
  \<open>Path.suffix\<close>: the part of the name from its last dot on, when that dot is neither the
  first nor the last character of the name; the empty string otherwise.
\<close>

definition path_suffix :: "pure_path \<Rightarrow> string" where
  "path_suffix p =
     (let name = path_name p; i = rfind name CHR ''.''
      in if 0 < i \<and> i < int (length name) - 1 then drop (nat i) name else '''')"

section \<open>The parsing client: MIME types\<close>

text \<open>The dictionary \<open>mime_map\<close> of \<open>_detect_mime_type\<close>, in the order of the source.\<close>

definition mime_map :: "(string \<times> string) list" where
  "mime_map =
     [(''.pdf'', ''application/pdf''),
      (''.doc'', ''application/msword''),
      (''.docx'', ''application/vnd.openxmlformats-officedocument.wordprocessingml.document''),
      (''.xls'', ''application/vnd.ms-excel''),
      (''.xlsx'', ''application/vnd.openxmlformats-officedocument.spreadsheetml.sheet''),
      (''.ppt'', ''application/vnd.ms-powerpoint''),
      (''.pptx'', ''application/vnd.openxmlformats-officedocument.presentationml.presentation''),
      (''.txt'', ''text/plain''),
      (''.md'', ''text/markdown''),
      (''.html'', ''text/html''),
      (''.htm'', ''text/html'')]"

definition detect_mime_type :: "pure_path \<Rightarrow> string" where
  "detect_mime_type file_path =
     (let suffix = lower (path_suffix file_path)
      in case map_of mime_map suffix of
           Some m \<Rightarrow> m
         | None \<Rightarrow> ''application/octet-stream'')"

section \<open>Exceptions, values and the log\<close>

text \<open>
  The exceptions that the operations of the two modules raise. All of them derive from
  Python's \<open>Exception\<close>; \<open>ConnectTimeout\<close> derives from both \<open>Timeout\<close> and
  \<open>ConnectionError\<close> of \<open>requests.exceptions\<close>, \<open>FileNotFoundError\<close> from
  \<open>OSError\<close>. The predicates are the \<open>isinstance\<close> tests of the \<open>except\<close> clauses.
\<close>

datatype exn =
    ValueError
  | FileNotFoundError
  | OSError
  | Timeout
  | ConnectTimeout
  | ConnectionError
  | RequestException
  | JSONDecodeError
  | CalledProcessError
  | RuntimeError

fun is_Timeout :: "exn \<Rightarrow> bool" where
  "is_Timeout Timeout = True"
| "is_Timeout ConnectTimeout = True"
| "is_Timeout _ = False"

fun is_ConnectionError :: "exn \<Rightarrow> bool" where
  "is_ConnectionError ConnectionError = True"
| "is_ConnectionError ConnectTimeout = True"
| "is_ConnectionError _ = False"

fun is_FileNotFoundError :: "exn \<Rightarrow> bool" where
  "is_FileNotFoundError FileNotFoundError = True"
| "is_FileNotFoundError _ = False"

fun is_JSONDecodeError :: "exn \<Rightarrow> bool" where
  "is_JSONDecodeError JSONDecodeError = True"
| "is_JSONDecodeError _ = False"

fun is_CalledProcessError :: "exn \<Rightarrow> bool" where
  "is_CalledProcessError CalledProcessError = True"
| "is_CalledProcessError _ = False"

fun is_Exception :: "exn \<Rightarrow> bool" where
  "is_Exception ValueError = True"
| "is_Exception FileNotFoundError = True"
| "is_Exception OSError = True"
| "is_Exception Timeout = True"
| "is_Exception ConnectTimeout = True"
| "is_Exception ConnectionError = True"
| "is_Exception RequestException = True"
| "is_Exception JSONDecodeError = True"
| "is_Exception CalledProcessError = True"
| "is_Exception RuntimeError = True"

text \<open>
  A Python value returned by \<open>parse\<close>: \<open>None\<close>, or a decoded JSON structure other
  than \<open>null\<close> (the decoder turns \<open>null\<close> into \<open>None\<close>). The structure itself is a
  parameter: the client never looks inside it.
\<close>

datatype 'j pyvalue = PyNone | PyJson 'j

text \<open>The calls to the logger, each with its level and what it reports.\<close>

datatype level = DEBUG | INFO | WARNING | ERROR

datatype message =
    ParsingFiles nat
  | StatusCode int
  | ParseSucceeded
  | JsonDecodeFailed
  | RawResponse string
  | RequestFailed int
  | ErrorBody string
  | RequestTimedOut int
  | ConnectFailed string
  | FileError exn
  | UnexpectedException exn
  | ConnectionTestFailed exn

section \<open>The world outside the client\<close>

text \<open>
  What a path names on disk: nothing, something that is not a regular file (a directory,
  say), a regular file, or a regular file that \<open>open\<close> refuses (no read permission).
\<close>

datatype fkind = Missing | NotRegular | Regular | Unreadable

definition path_exists :: "(string \<Rightarrow> fkind) \<Rightarrow> pure_path \<Rightarrow> bool" where
  "path_exists fs p = (fs (path_str p) \<noteq> Missing)"

definition path_is_file :: "(string \<Rightarrow> fkind) \<Rightarrow> pure_path \<Rightarrow> bool" where
  "path_is_file fs p = (fs (path_str p) = Regular \<or> fs (path_str p) = Unreadable)"

text \<open>
  The table of file objects. A file object is the index of its entry; \<open>close_calls\<close>
  counts the calls of \<open>close()\<close> on it.
\<close>

record fhandle =
  hpath :: string
  closed :: bool
  close_calls :: nat

definition open_rb :: "(string \<Rightarrow> fkind) \<Rightarrow> pure_path \<Rightarrow> fhandle list \<Rightarrow> (exn + nat) \<times> fhandle list" where
  "open_rb fs p hs =
     (case fs (path_str p) of
        Regular \<Rightarrow>
          (Inr (length hs), hs @ [\<lparr>hpath = path_str p, closed = False, close_calls = 0\<rparr>])
      | Missing \<Rightarrow> (Inl FileNotFoundError, hs)
      | NotRegular \<Rightarrow> (Inl OSError, hs)
      | Unreadable \<Rightarrow> (Inl OSError, hs))"

definition close_file :: "nat \<Rightarrow> fhandle list \<Rightarrow> fhandle list" where
  "close_file h hs =
     (if h < length hs
      then hs[h := (hs ! h)\<lparr>closed := True, close_calls := Suc (close_calls (hs ! h))\<rparr>]
      else hs)"

text \<open>
  One entry of the \<open>files\<close> argument of \<open>requests.post\<close>:
  \<open>('files', (filename, file_obj, mime_type))\<close>.
\<close>

type_synonym upload = "string \<times> (string \<times> nat \<times> string)"

record post_request =
  req_url :: string
  req_files :: "upload list"
  req_data :: "(string \<times> string) list"
  req_headers :: "(string \<times> string) list"
  req_timeout :: int

record get_request =
  get_url :: string
  get_timeout :: int

record response =
  status_code :: int
  resp_text :: string

datatype http_outcome = Raises exn | Returns response

text \<open>
  The file system, the HTTP transport and the JSON decoder of \<open>response.json()\<close> are
  parameters: every answer they can give is an input of the model.
\<close>

record 'j world =
  fs_kind :: "string \<Rightarrow> fkind"
  http_post :: "post_request \<Rightarrow> http_outcome"
  http_get :: "get_request \<Rightarrow> http_outcome"
  response_json :: "string \<Rightarrow> exn + 'j pyvalue"

section \<open>The parsing client\<close>

record client =
  base_url :: string
  timeout :: int
  headers :: "(string \<times> string) list"

definition DEFAULT_BASE_URL :: string where
  "DEFAULT_BASE_URL = ''http://localhost:8008/file_parse''"

definition DEFAULT_PARAMS :: "(string \<times> string) list" where
  "DEFAULT_PARAMS =
     [(''return_middle_json'', ''false''),
      (''return_model_output'', ''false''),
      (''return_md'', ''true''),
      (''return_images'', ''true''),
      (''end_page_id'', ''99999''),
      (''parse_method'', ''auto''),
      (''start_page_id'', ''0''),
      (''lang_list'', ''en''),
      (''output_dir'', ''./output''),
      (''server_url'', ''string''),
      (''return_content_list'', ''false''),
      (''backend'', ''pipeline''),
      (''table_enable'', ''true''),
      (''response_format_zip'', ''false''),
      (''formula_enable'', ''true'')]"

text \<open>
  \<open>__init__(base_url=None, timeout=60*6)\<close>. \<open>base_url or DEFAULT_BASE_URL\<close> takes the
  default for \<open>None\<close> and for the empty string, the two falsy values of \<open>Optional[str]\<close>.
\<close>

definition init :: "string option \<Rightarrow> int \<Rightarrow> client" where
  "init base_url_arg timeout_arg =
     \<lparr>base_url =
        (case base_url_arg of
           None \<Rightarrow> DEFAULT_BASE_URL
         | Some s \<Rightarrow> if s = '''' then DEFAULT_BASE_URL else s),
      timeout = timeout_arg,
      headers = [(''accept'', ''application/json'')]\<rparr>"

definition default_timeout :: int where
  "default_timeout = 60 * 6"

subsection \<open>\<open>_prepare_files\<close>\<close>

text \<open>
  The loop of \<open>_prepare_files\<close>, with the list \<open>files\<close> built so far and the table of
  file objects. A \<open>raise\<close> leaves the loop with the exception. The list \<open>files\<close> is a
  local variable of \<open>_prepare_files\<close> and is not returned then: from that moment only the
  frame of \<open>_prepare_files\<close> refers to it, and only the traceback of the exception refers
  to that frame. So the exception comes with the list as it was at the \<open>raise\<close>.
\<close>

fun prepare_loop ::
  "(string \<Rightarrow> fkind) \<Rightarrow> string list \<Rightarrow> upload list \<Rightarrow> fhandle list \<Rightarrow>
     ((exn \<times> upload list) + upload list) \<times> fhandle list"
where
  "prepare_loop fs [] files hs = (Inr files, hs)"
| "prepare_loop fs (p # ps) files hs =
     (let file_path = Path p in
      if \<not> path_exists fs file_path then (Inl (FileNotFoundError, files), hs)
      else if \<not> path_is_file fs file_path then (Inl (ValueError, files), hs)
      else
        (let mime_type = detect_mime_type file_path in
         case open_rb fs file_path hs of
           (Inl e, hs') \<Rightarrow> (Inl (e, files), hs')
         | (Inr f, hs') \<Rightarrow>
             prepare_loop fs ps
               (files @ [(''files'', (path_name file_path, f, mime_type))]) hs'))"

text \<open>What the caller of \<open>_prepare_files\<close> gets: the exception or the list, and the table.\<close>

definition prepare_files ::
  "(string \<Rightarrow> fkind) \<Rightarrow> string list \<Rightarrow> fhandle list \<Rightarrow> (exn + upload list) \<times> fhandle list"
where
  "prepare_files fs local_files hs =
     (if local_files = [] then (Inl ValueError, hs)
      else (case prepare_loop fs local_files [] hs of
              (Inl (e, files), hs') \<Rightarrow> (Inl e, hs')
            | (Inr files, hs') \<Rightarrow> (Inr files, hs')))"

text \<open>
  The list \<open>files\<close> that the frame of \<open>_prepare_files\<close> still holds when the call has
  raised; nothing when it has returned, since the caller has the list then. The check for
  the empty list raises before \<open>files\<close> exists.
\<close>

definition prepare_frame :: "(string \<Rightarrow> fkind) \<Rightarrow> string list \<Rightarrow> fhandle list \<Rightarrow> upload list" where
  "prepare_frame fs local_files hs =
     (if local_files = [] then []
      else (case prepare_loop fs local_files [] hs of
              (Inl (e, files), hs') \<Rightarrow> files
            | (Inr files, hs') \<Rightarrow> []))"

subsection \<open>\<open>_close_files\<close>\<close>

text \<open>
  Every file object of the list is closed unless it is closed already. Closing a file
  opened for reading does not fail in this model, so the \<open>except\<close> clause around
  \<open>close()\<close> has no branch here.
\<close>

fun close_files :: "upload list \<Rightarrow> fhandle list \<Rightarrow> fhandle list" where
  "close_files [] hs = hs"
| "close_files (file_tuple # rest) hs =
     (let file_obj = fst (snd (snd file_tuple)) in
      close_files rest
        (if file_obj < length hs \<and> \<not> closed (hs ! file_obj) then close_file file_obj hs
         else hs))"

subsection \<open>File objects that nothing refers to\<close>

text \<open>
  CPython counts references and frees an object when the last one goes. The finalizer
  of a file object closes the file if it is still open (and warns of an unclosed file).
  \<open>release_frame\<close> is what happens to the file objects of a list when the last reference
  to the list goes.
\<close>

definition finalize_file :: "nat \<Rightarrow> fhandle list \<Rightarrow> fhandle list" where
  "finalize_file file_obj hs =
     (if file_obj < length hs \<and> \<not> closed (hs ! file_obj) then close_file file_obj hs else hs)"

definition release_frame :: "upload list \<Rightarrow> fhandle list \<Rightarrow> fhandle list" where
  "release_frame files hs = fold (\<lambda>file_tuple. finalize_file (fst (snd (snd file_tuple)))) files hs"

subsection \<open>\<open>parse\<close>\<close>

text \<open>
  What a call leaves behind: the value returned (\<open>Inr\<close>) or the exception that reaches
  the caller (\<open>Inl\<close>), the calls to the logger, the table of file objects and the POST
  requests issued, in order.
\<close>

record 'j outcome =
  result :: "exn + 'j pyvalue"
  logged :: "(level \<times> message) list"
  handles :: "fhandle list"
  requests :: "post_request list"

text \<open>
  The body of the \<open>try\<close> block. Besides the outcome so far it gives the value of the
  local variable \<open>files\<close> of \<open>parse\<close> when the block is left: it is still \<open>[]\<close> when
  \<open>_prepare_files\<close> raised, because the assignment never happened.
\<close>

definition parse_try ::
  "client \<Rightarrow> 'j world \<Rightarrow> string list \<Rightarrow> fhandle list \<Rightarrow> upload list \<times> 'j outcome"
where
  "parse_try c w local_files hs =
     (case prepare_files (fs_kind w) local_files hs of
        (Inl e, hs1) \<Rightarrow>
          ([], \<lparr>result = Inl e, logged = [], handles = hs1, requests = []\<rparr>)
      | (Inr files, hs1) \<Rightarrow>
          (let log1 = [(INFO, ParsingFiles (length files))];
               rq = \<lparr>req_url = base_url c, req_files = files, req_data = DEFAULT_PARAMS,
                     req_headers = headers c, req_timeout = timeout c\<rparr>
           in case http_post w rq of
                Raises e \<Rightarrow>
                  (files, \<lparr>result = Inl e, logged = log1, handles = hs1, requests = [rq]\<rparr>)
              | Returns resp \<Rightarrow>
                  (let log2 = log1 @ [(INFO, StatusCode (status_code resp))] in
                   if status_code resp = 200 then
                     (case response_json w (resp_text resp) of
                        Inr v \<Rightarrow>
                          (files, \<lparr>result = Inr v, logged = log2 @ [(INFO, ParseSucceeded)],
                                   handles = hs1, requests = [rq]\<rparr>)
                      | Inl e \<Rightarrow>
                          if is_JSONDecodeError e then
                            (files, \<lparr>result = Inr PyNone,
                                     logged = log2 @ [(ERROR, JsonDecodeFailed),
                                                      (DEBUG, RawResponse (take 500 (resp_text resp)))],
                                     handles = hs1, requests = [rq]\<rparr>)
                          else
                            (files, \<lparr>result = Inl e, logged = log2,
                                     handles = hs1, requests = [rq]\<rparr>))
                   else
                     (files, \<lparr>result = Inr PyNone,
                              logged = log2 @ [(ERROR, RequestFailed (status_code resp)),
                                               (ERROR, ErrorBody (take 500 (resp_text resp)))],
                              handles = hs1, requests = [rq]\<rparr>))))"

text \<open>The \<open>except\<close> clauses of \<open>parse\<close>, tried in the order of the source.\<close>

definition parse_except :: "client \<Rightarrow> exn \<Rightarrow> (exn + 'j pyvalue) \<times> (level \<times> message) list" where
  "parse_except c e =
     (if is_Timeout e then (Inr PyNone, [(ERROR, RequestTimedOut (timeout c))])
      else if is_ConnectionError e then (Inr PyNone, [(ERROR, ConnectFailed (base_url c))])
      else if is_FileNotFoundError e then (Inr PyNone, [(ERROR, FileError e)])
      else if is_Exception e then (Inr PyNone, [(ERROR, UnexpectedException e)])
      else (Inl e, []))"

text \<open>
  \<open>try\<close>, then the matching \<open>except\<close> clause, then \<open>finally\<close>. When an \<open>except\<close>
  clause has caught the exception and is left, the exception is released, and with it its
  traceback and the frame of \<open>_prepare_files\<close> if it was raised there: the file objects
  of that frame are finalized before the \<open>finally\<close> clause runs. An exception that no
  clause catches stays alive and keeps them.
\<close>

definition parse :: "client \<Rightarrow> 'j world \<Rightarrow> string list \<Rightarrow> fhandle list \<Rightarrow> 'j outcome" where
  "parse c w local_files hs =
     (case parse_try c w local_files hs of
        (files, out) \<Rightarrow>
          (let out' =
                 (case result out of
                    Inr v \<Rightarrow> out
                  | Inl e \<Rightarrow>
                      (case parse_except c e of
                         (Inr v, l) \<Rightarrow>
                           out\<lparr>result := Inr v, logged := logged out @ l,
                               handles :=
                                 release_frame (prepare_frame (fs_kind w) local_files hs)
                                   (handles out)\<rparr>
                       | (Inl e', l) \<Rightarrow> out\<lparr>result := Inl e', logged := logged out @ l\<rparr>))
           in out'\<lparr>handles := close_files files (handles out')\<rparr>))"

definition parse_single :: "client \<Rightarrow> 'j world \<Rightarrow> string \<Rightarrow> fhandle list \<Rightarrow> 'j outcome" where
  "parse_single c w file_path hs = parse c w [file_path] hs"

subsection \<open>\<open>test_connection\<close>\<close>

record connection_test =
  reachable :: "exn + bool"
  warned :: "(level \<times> message) list"
  gets :: "get_request list"

definition test_connection :: "client \<Rightarrow> 'j world \<Rightarrow> connection_test" where
  "test_connection c w =
     (let rq = \<lparr>get_url = str_replace (base_url c) ''/file_parse'' '''', get_timeout = 5\<rparr>
      in case http_get w rq of
           Returns resp \<Rightarrow>
             \<lparr>reachable = Inr (status_code resp = 200), warned = [], gets = [rq]\<rparr>
         | Raises e \<Rightarrow>
             if is_Exception e
             then \<lparr>reachable = Inr False, warned = [(WARNING, ConnectionTestFailed e)],
                   gets = [rq]\<rparr>
             else \<lparr>reachable = Inl e, warned = [], gets = [rq]\<rparr>)"

section \<open>The converter helper\<close>

subsection \<open>os.path on a POSIX system\<close>

text \<open>
  \<open>os.path.splitext\<close>: the extension starts at the last dot of the last component,
  unless only dots come before it in that component.
\<close>

definition splitext :: "string \<Rightarrow> string \<times> string" where
  "splitext p =
     (let sepIndex = rfind p CHR ''/''; dotIndex = rfind p CHR ''.''
      in if dotIndex > sepIndex \<and>
            list_ex (\<lambda>c. c \<noteq> CHR ''.'')
              (take (nat (dotIndex - (sepIndex + 1))) (drop (nat (sepIndex + 1)) p))
         then (take (nat dotIndex) p, drop (nat dotIndex) p)
         else (p, ''''))"

definition rstrip_sep :: "string \<Rightarrow> string" where
  "rstrip_sep s = rev (dropWhile (\<lambda>c. c = CHR ''/'') (rev s))"

definition dirname :: "string \<Rightarrow> string" where
  "dirname p =
     (let i = nat (rfind p CHR ''/'' + 1); head = take i p
      in if head \<noteq> '''' \<and> head \<noteq> replicate (length head) CHR ''/'' then rstrip_sep head
         else head)"

definition basename :: "string \<Rightarrow> string" where
  "basename p = drop (nat (rfind p CHR ''/'' + 1)) p"

definition path_join :: "string \<Rightarrow> string \<Rightarrow> string" where
  "path_join a b =
     (if take 1 b = ''/'' then b
      else if a = '''' \<or> take 1 (rev a) = ''/'' then a @ b
      else a @ ''/'' @ b)"

subsection \<open>\<open>convert_doc_to_docx\<close>\<close>

text \<open>
  The child process either exits with a return code or cannot be started at all (no
  \<open>soffice\<close> on the search path). \<open>subprocess.run\<close> with \<open>check=True\<close> raises
  \<open>CalledProcessError\<close> for a return code other than zero.
\<close>

datatype proc = Exited int | SpawnFails exn

definition subprocess_run :: "(string list \<Rightarrow> proc) \<Rightarrow> string list \<Rightarrow> exn + int" where
  "subprocess_run sh command =
     (case sh command of
        SpawnFails e \<Rightarrow> Inl e
      | Exited rc \<Rightarrow> if rc \<noteq> 0 then Inl CalledProcessError else Inr rc)"

text \<open>
  The world of the helper: how the command ends, and which paths exist once it has ended.
\<close>

record conv_world =
  run_process :: "string list \<Rightarrow> proc"
  exists_after :: "string \<Rightarrow> bool"

text \<open>The three messages the helper prints.\<close>

datatype printed = ConvertSucceeded string | OutputNotFound | ConvertFailed

record conversion =
  returned :: "exn + string option"
  stdout :: "printed list"
  commands :: "string list list"

definition convert_doc_to_docx :: "conv_world \<Rightarrow> string \<Rightarrow> conversion" where
  "convert_doc_to_docx w input_doc_path =
     (let output_docx_path = fst (splitext input_doc_path) @ ''.docx'';
          command = [''soffice'', ''--headless'', ''--convert-to'', ''docx'', input_doc_path,
                     ''--outdir'', dirname output_docx_path]
      in case subprocess_run (run_process w) command of
           Inr rc \<Rightarrow>
             (let generated_file =
                    path_join (dirname output_docx_path) (basename output_docx_path)
              in if exists_after w generated_file
                 then \<lparr>returned = Inr (Some generated_file),
                       stdout = [ConvertSucceeded generated_file], commands = [command]\<rparr>
                 else \<lparr>returned = Inr (Some generated_file),
                       stdout = [OutputNotFound], commands = [command]\<rparr>)
         | Inl e \<Rightarrow>
             if is_CalledProcessError e
             then \<lparr>returned = Inr None, stdout = [ConvertFailed], commands = [command]\<rparr>
             else \<lparr>returned = Inl e, stdout = [], commands = [command]\<rparr>)"

section \<open>Concrete worlds\<close>

text \<open>
  A small disk: two regular files, a directory, a file without read permission, and
  nothing else.
\<close>

definition demo_fs :: "string \<Rightarrow> fkind" where
  "demo_fs p =
     (if p = ''a.pdf'' then Regular
      else if p = ''docs/b.DOCX'' then Regular
      else if p = ''docs'' then NotRegular
      else if p = ''secret.txt'' then Unreadable
      else Missing)"

text \<open>
  A decoder for the examples: \<open>null\<close> is \<open>None\<close>, a text that starts with a brace
  decodes to itself, anything else is malformed.
\<close>

definition demo_json :: "string \<Rightarrow> exn + string pyvalue" where
  "demo_json s =
     (if s = ''null'' then Inr PyNone
      else if take 1 s = ''{'' then Inr (PyJson s)
      else Inl JSONDecodeError)"

text \<open>A server that answers every request with the given status and body.\<close>

definition demo_world :: "int \<Rightarrow> string \<Rightarrow> string world" where
  "demo_world st body =
     \<lparr>fs_kind = demo_fs,
      http_post = (\<lambda>rq. Returns \<lparr>status_code = st, resp_text = body\<rparr>),
      http_get = (\<lambda>rq. Returns \<lparr>status_code = st, resp_text = body\<rparr>),
      response_json = demo_json\<rparr>"

text \<open>A host that cannot be reached.\<close>

definition down_world :: "string world" where
  "down_world =
     \<lparr>fs_kind = demo_fs,
      http_post = (\<lambda>rq. Raises ConnectionError),
      http_get = (\<lambda>rq. Raises ConnectionError),
      response_json = demo_json\<rparr>"

text \<open>The converter exits with the given code and leaves exactly the given files.\<close>

definition demo_conv :: "int \<Rightarrow> string list \<Rightarrow> conv_world" where
  "demo_conv rc present =
     \<lparr>run_process = (\<lambda>command. Exited rc), exists_after = (\<lambda>p. p \<in> set present)\<rparr>"

section \<open>Properties of the parsing client\<close>

subsection \<open>What \<open>parse\<close> returns, requests and leaves open\<close>

text \<open>Every exception of the model is an instance of \<open>Exception\<close>.\<close>

lemma is_Exception_all: "is_Exception e"
  by (cases e) simp_all

text \<open>Whichever \<open>except\<close> clause matches, it returns \<open>None\<close>.\<close>

lemma parse_except_result: "parse_except c e = (r, l) \<Longrightarrow> r = Inr PyNone"
  by (auto simp: parse_except_def is_Exception_all split: if_splits)



text \<open>
  The value of \<open>parse\<close>, the POST requests it issues and the table of file objects it
  leaves behind, each read off the outcome of \<open>_prepare_files\<close> and of the transport.
\<close>

lemma result_parse:
  "result (parse c w local_files hs) =
     (case prepare_files (fs_kind w) local_files hs of
        (Inl e, hs1) \<Rightarrow> Inr PyNone
      | (Inr files, hs1) \<Rightarrow>
          (case http_post w \<lparr>req_url = base_url c, req_files = files, req_data = DEFAULT_PARAMS,
                             req_headers = headers c, req_timeout = timeout c\<rparr> of
             Raises e \<Rightarrow> Inr PyNone
           | Returns resp \<Rightarrow>
               if status_code resp = 200
               then (case response_json w (resp_text resp) of
                       Inr v \<Rightarrow> Inr v
                     | Inl e \<Rightarrow> Inr PyNone)
               else Inr PyNone))"
  by (auto simp: parse_def parse_try_def Let_def dest: parse_except_result
      split: prod.splits sum.splits http_outcome.splits)

lemma requests_parse:
  "requests (parse c w local_files hs) =
     (case prepare_files (fs_kind w) local_files hs of
        (Inl e, hs1) \<Rightarrow> []
      | (Inr files, hs1) \<Rightarrow>
          [\<lparr>req_url = base_url c, req_files = files, req_data = DEFAULT_PARAMS,
            req_headers = headers c, req_timeout = timeout c\<rparr>])"
  by (auto simp: parse_def parse_try_def Let_def split: prod.splits sum.splits http_outcome.splits)






text \<open>The definitions that evaluate the client on a concrete world.\<close>

lemmas eval_defs =
  parse_def parse_try_def parse_except_def prepare_files_def prepare_frame_def
  release_frame_def finalize_file_def init_def default_timeout_def
  demo_world_def down_world_def demo_fs_def demo_json_def DEFAULT_BASE_URL_def
  path_exists_def path_is_file_def open_rb_def close_file_def
  Path_def path_str_def path_name_def path_suffix_def rfind_def
  detect_mime_type_def mime_map_def lower_def lower_char_def ascii_upper_def ascii_lower_def
  Let_def

subsection \<open>Empty and nonexistent inputs\<close>

text \<open>
  Claim C1, as amended. For the empty list \<open>_prepare_files\<close> raises \<open>ValueError\<close> and opens
  nothing. \<open>parse\<close> catches it in its last \<open>except\<close> clause: it returns \<open>None\<close>, logs
  one error, leaves the table of file objects as it was and issues no POST request.
\<close>

theorem parse_empty_list:
  "prepare_files fs [] hs = (Inl ValueError, hs) \<and>
   parse c w [] hs =
     \<lparr>result = Inr PyNone, logged = [(ERROR, UnexpectedException ValueError)],
      handles = hs, requests = []\<rparr>"
  by (simp add: parse_def parse_try_def parse_except_def prepare_files_def prepare_frame_def
      release_frame_def)

text \<open>
  Claim C1 as stated fails: on the empty list \<open>parse\<close> returns \<open>None\<close>, it does not
  raise \<open>ValueError\<close> to its caller.
\<close>

theorem parse_empty_list_counterexample:
  "result (parse (init None default_timeout) (demo_world 200 ''{}'') [] []) = Inr PyNone \<and>
   result (parse (init None default_timeout) (demo_world 200 ''{}'') [] []) \<noteq> Inl ValueError"
  by (simp add: parse_def parse_try_def parse_except_def prepare_files_def prepare_frame_def
      release_frame_def)




subsection \<open>File objects\<close>







section \<open>Properties of the converter helper\<close>

text \<open>The definitions that evaluate the helper on a concrete world.\<close>

lemmas conv_defs =
  convert_doc_to_docx_def subprocess_run_def demo_conv_def splitext_def dirname_def
  basename_def path_join_def rstrip_sep_def rfind_def Let_def

text \<open>
  Claim C4 fails on the code. When the command exits with status zero and the expected
  file is absent afterwards, the helper prints that the output file was not found and
  still returns the path, not \<open>None\<close>.
\<close>

theorem convert_exit_zero_output_absent:
  "returned (convert_doc_to_docx (demo_conv 0 []) ''report.doc'') = Inr (Some ''report.docx'') \<and>
   stdout (convert_doc_to_docx (demo_conv 0 []) ''report.doc'') = [OutputNotFound]"
  by (simp add: conv_defs)

section \<open>MIME types\<close>

text \<open>
  Claim C5. \<open>_detect_mime_type\<close> depends on the lower-cased suffix of the path only:
  each of the eleven suffixes of the table gives its MIME type, every other suffix gives
  \<open>application/octet-stream\<close>, and two paths whose suffixes agree up to case get the
  same type; \<open>a.PDF\<close> and \<open>a.pdf\<close> are both \<open>application/pdf\<close>.
\<close>

theorem detect_mime_type_table:
  "(lower (path_suffix p) = ''.pdf'' \<longrightarrow> detect_mime_type p = ''application/pdf'') \<and>
   (lower (path_suffix p) = ''.doc'' \<longrightarrow> detect_mime_type p = ''application/msword'') \<and>
   (lower (path_suffix p) = ''.docx'' \<longrightarrow>
      detect_mime_type p = ''application/vnd.openxmlformats-officedocument.wordprocessingml.document'') \<and>
   (lower (path_suffix p) = ''.xls'' \<longrightarrow> detect_mime_type p = ''application/vnd.ms-excel'') \<and>
   (lower (path_suffix p) = ''.xlsx'' \<longrightarrow>
      detect_mime_type p = ''application/vnd.openxmlformats-officedocument.spreadsheetml.sheet'') \<and>
   (lower (path_suffix p) = ''.ppt'' \<longrightarrow> detect_mime_type p = ''application/vnd.ms-powerpoint'') \<and>
   (lower (path_suffix p) = ''.pptx'' \<longrightarrow>
      detect_mime_type p = ''application/vnd.openxmlformats-officedocument.presentationml.presentation'') \<and>
   (lower (path_suffix p) = ''.txt'' \<longrightarrow> detect_mime_type p = ''text/plain'') \<and>
   (lower (path_suffix p) = ''.md'' \<longrightarrow> detect_mime_type p = ''text/markdown'') \<and>
   (lower (path_suffix p) = ''.html'' \<longrightarrow> detect_mime_type p = ''text/html'') \<and>
   (lower (path_suffix p) = ''.htm'' \<longrightarrow> detect_mime_type p = ''text/html'') \<and>
   (lower (path_suffix p) \<notin> set [''.pdf'', ''.doc'', ''.docx'', ''.xls'', ''.xlsx'', ''.ppt'',
        ''.pptx'', ''.txt'', ''.md'', ''.html'', ''.htm''] \<longrightarrow>
      detect_mime_type p = ''application/octet-stream'') \<and>
   (lower (path_suffix p) = lower (path_suffix q) \<longrightarrow> detect_mime_type p = detect_mime_type q) \<and>
   detect_mime_type (Path ''a.PDF'') = ''application/pdf'' \<and>
   detect_mime_type (Path ''a.pdf'') = ''application/pdf'' \<and>
   detect_mime_type (Path ''a.xyz'') = ''application/octet-stream''"
proof -
  have table: "lower (path_suffix p) = ext \<Longrightarrow>
      detect_mime_type p = (case map_of mime_map ext of Some m \<Rightarrow> m | None \<Rightarrow> ''application/octet-stream'')"
    for ext
    by (simp add: detect_mime_type_def)
  have other: "lower (path_suffix p) \<notin> set [''.pdf'', ''.doc'', ''.docx'', ''.xls'', ''.xlsx'', ''.ppt'',
        ''.pptx'', ''.txt'', ''.md'', ''.html'', ''.htm''] \<Longrightarrow>
      detect_mime_type p = ''application/octet-stream''"
    by (simp add: detect_mime_type_def mime_map_def)
  have same: "lower (path_suffix p) = lower (path_suffix q) \<Longrightarrow> detect_mime_type p = detect_mime_type q"
    by (simp add: detect_mime_type_def)
  have ex1: "detect_mime_type (Path ''a.PDF'') = ''application/pdf''"
    by (simp add: eval_defs)
  have ex2: "detect_mime_type (Path ''a.pdf'') = ''application/pdf''"
    by (simp add: eval_defs)
  have ex3: "detect_mime_type (Path ''a.xyz'') = ''application/octet-stream''"
    by (simp add: eval_defs)
  show ?thesis
    using other same ex1 ex2 ex3 by (simp add: table mime_map_def)
qed

text \<open>Claim C5 at an upper-case suffix, at a name without a suffix and at two spellings of one suffix.\<close>

theorem detect_mime_type_table_witness:
  "lower (path_suffix (Path ''docs/b.DOCX'')) = ''.docx'' \<and>
   detect_mime_type (Path ''docs/b.DOCX'') =
     ''application/vnd.openxmlformats-officedocument.wordprocessingml.document'' \<and>
   lower (path_suffix (Path ''Makefile'')) \<notin> set [''.pdf'', ''.doc'', ''.docx'', ''.xls'', ''.xlsx'', ''.ppt'',
        ''.pptx'', ''.txt'', ''.md'', ''.html'', ''.htm''] \<and>
   detect_mime_type (Path ''Makefile'') = ''application/octet-stream'' \<and>
   lower (path_suffix (Path ''x/INDEX.HTM'')) = lower (path_suffix (Path ''y.htm'')) \<and>
   detect_mime_type (Path ''x/INDEX.HTM'') = detect_mime_type (Path ''y.htm'')"
proof -
  have a: "lower (path_suffix (Path ''docs/b.DOCX'')) = ''.docx''"
    by (simp add: eval_defs)
  have b: "lower (path_suffix (Path ''Makefile'')) \<notin> set [''.pdf'', ''.doc'', ''.docx'', ''.xls'', ''.xlsx'', ''.ppt'',
        ''.pptx'', ''.txt'', ''.md'', ''.html'', ''.htm'']"
    by (simp add: eval_defs)
  have c: "lower (path_suffix (Path ''x/INDEX.HTM'')) = lower (path_suffix (Path ''y.htm''))"
    by (simp add: eval_defs)
  from a b c
    detect_mime_type_table [of "Path ''docs/b.DOCX''" "Path ''y.htm''"]
    detect_mime_type_table [of "Path ''Makefile''" "Path ''y.htm''"]
    detect_mime_type_table [of "Path ''x/INDEX.HTM''" "Path ''y.htm''"]
  show ?thesis by simp
qed


section \<open>Responses\<close>

text \<open>
  Claim C6. Once the files are prepared and the POST request has been answered: for
  status 200 and a body that decodes, \<open>parse\<close> returns the decoded value as it is; for
  any other status it returns \<open>None\<close>.
\<close>

theorem parse_response:
  "prepare_files (fs_kind w) local_files hs = (Inr files, hs1) \<Longrightarrow>
   http_post w \<lparr>req_url = base_url c, req_files = files, req_data = DEFAULT_PARAMS,
                req_headers = headers c, req_timeout = timeout c\<rparr> = Returns resp \<Longrightarrow>
     (status_code resp = 200 \<longrightarrow> response_json w (resp_text resp) = Inr v \<longrightarrow>
        result (parse c w local_files hs) = Inr v) \<and>
     (status_code resp \<noteq> 200 \<longrightarrow> result (parse c w local_files hs) = Inr PyNone)"
  by (simp add: result_parse)

text \<open>Claim C6 at a server that answers 200 with a JSON object, and at one that answers 503.\<close>

theorem parse_response_witness:
  "prepare_files (fs_kind (demo_world 200 ''{}'')) [''a.pdf''] [] =
     (Inr [(''files'', (''a.pdf'', 0, ''application/pdf''))],
      [\<lparr>hpath = ''a.pdf'', closed = False, close_calls = 0\<rparr>]) \<and>
   response_json (demo_world 200 ''{}'') ''{}'' = Inr (PyJson ''{}'') \<and>
   result (parse (init None default_timeout) (demo_world 200 ''{}'') [''a.pdf''] []) =
     Inr (PyJson ''{}'') \<and>
   result (parse (init None default_timeout) (demo_world 503 ''busy'') [''a.pdf''] []) = Inr PyNone"
proof -
  let ?c = "init None default_timeout"
  let ?files = "[(''files'', (''a.pdf'', 0::nat, ''application/pdf''))]"
  let ?hs1 = "[\<lparr>hpath = ''a.pdf'', closed = False, close_calls = 0\<rparr>]"
  have p: "prepare_files (fs_kind (demo_world st body)) [''a.pdf''] [] = (Inr ?files, ?hs1)"
    for st body
    by (simp add: eval_defs)
  have q: "http_post (demo_world st body)
      \<lparr>req_url = base_url ?c, req_files = ?files, req_data = DEFAULT_PARAMS,
       req_headers = headers ?c, req_timeout = timeout ?c\<rparr> =
      Returns \<lparr>status_code = st, resp_text = body\<rparr>" for st body
    by (simp add: demo_world_def)
  have j: "response_json (demo_world 200 ''{}'') ''{}'' = Inr (PyJson ''{}'')"
    by (simp add: demo_world_def demo_json_def)
  from parse_response [OF p q, of 200 "''{}''" "PyJson ''{}''"]
       parse_response [OF p q, of 503 "''busy''" PyNone] p j
  show ?thesis by simp
qed

text \<open>
  Claim C7. \<open>parse_single\<close> on a path is \<open>parse\<close> on the one-element list: the same
  value, the same log, the same file objects and the same requests.
\<close>

theorem parse_single_is_parse:
  "parse_single c w p hs = parse c w [p] hs \<and>
   result (parse_single c w p hs) = result (parse c w [p] hs) \<and>
   logged (parse_single c w p hs) = logged (parse c w [p] hs) \<and>
   handles (parse_single c w p hs) = handles (parse c w [p] hs) \<and>
   requests (parse_single c w p hs) = requests (parse c w [p] hs)"
  by (simp add: parse_single_def)

section \<open>The connection test\<close>

text \<open>
  Claim C8, as amended. \<open>test_connection\<close> issues exactly one GET request, to the base
  URL with every occurrence of \<open>/file_parse\<close> removed and with a timeout of 5 seconds.
  It always returns a boolean: \<open>True\<close> exactly when a response arrives with status 200.
  It logs a warning when the request raised, and nothing when a response arrived, whatever
  its status. For the default base URL the request goes to \<open>http://localhost:8008\<close>.
\<close>

theorem test_connection_boolean:
  "gets (test_connection c w) =
     [\<lparr>get_url = str_replace (base_url c) ''/file_parse'' '''', get_timeout = 5\<rparr>] \<and>
   reachable (test_connection c w) =
     Inr (\<exists>resp. http_get w \<lparr>get_url = str_replace (base_url c) ''/file_parse'' '''',
                               get_timeout = 5\<rparr> = Returns resp \<and> status_code resp = 200) \<and>
   warned (test_connection c w) =
     (case http_get w \<lparr>get_url = str_replace (base_url c) ''/file_parse'' '''', get_timeout = 5\<rparr> of
        Returns resp \<Rightarrow> []
      | Raises e \<Rightarrow> [(WARNING, ConnectionTestFailed e)]) \<and>
   str_replace DEFAULT_BASE_URL ''/file_parse'' '''' = ''http://localhost:8008''"
proof -
  have u: "str_replace DEFAULT_BASE_URL ''/file_parse'' '''' = ''http://localhost:8008''"
    by (simp add: str_replace_def DEFAULT_BASE_URL_def)
  show ?thesis
    by (cases "http_get w \<lparr>get_url = str_replace (base_url c) ''/file_parse'' '''', get_timeout = 5\<rparr>")
      (simp_all add: test_connection_def Let_def is_Exception_all u)
qed

text \<open>
  Claim C8 as stated fails in one point: for a response with status 404
  \<open>test_connection\<close> returns \<open>False\<close> and logs nothing.
\<close>

theorem test_connection_non200_counterexample:
  "reachable (test_connection (init None default_timeout) (demo_world 404 ''Not Found'')) = Inr False \<and>
   warned (test_connection (init None default_timeout) (demo_world 404 ''Not Found'')) = []"
  by (simp add: test_connection_def demo_world_def Let_def)

section \<open>No exception leaves \<open>parse\<close>\<close>


section \<open>The constructor\<close>

text \<open>
  Claim C10, as amended. Without a base URL, and with the empty string, the constructor
  stores the default \<open>http://localhost:8008/file_parse\<close>; a non-empty string is stored
  as it is. The stored base URL is never empty, and every POST request of \<open>parse\<close>
  goes to exactly the stored base URL. The GET request of \<open>test_connection\<close> goes to the
  stored base URL with every occurrence of \<open>/file_parse\<close> removed.
\<close>

theorem init_base_url:
  "base_url (init None t) = ''http://localhost:8008/file_parse'' \<and>
   base_url (init (Some '''') t) = ''http://localhost:8008/file_parse'' \<and>
   (s \<noteq> '''' \<longrightarrow> base_url (init (Some s) t) = s) \<and>
   base_url (init b t) \<noteq> '''' \<and>
   map req_url (requests (parse (init b t) w local_files hs)) =
     replicate (length (requests (parse (init b t) w local_files hs))) (base_url (init b t)) \<and>
   map get_url (gets (test_connection (init b t) w)) =
     [str_replace (base_url (init b t)) ''/file_parse'' '''']"
proof -
  have get: "map get_url (gets (test_connection c w)) = [str_replace (base_url c) ''/file_parse'' '''']"
    for c :: client
    by (cases "http_get w \<lparr>get_url = str_replace (base_url c) ''/file_parse'' '''', get_timeout = 5\<rparr>")
      (simp_all add: test_connection_def Let_def)
  show ?thesis
    by (auto simp: get init_def DEFAULT_BASE_URL_def requests_parse
        split: option.splits prod.splits sum.splits)
qed

text \<open>
  Claim C10 as stated fails for the request of \<open>test_connection\<close>: with the base URL
  \<open>/file_parse\<close> the GET request is addressed to the empty string, and with the default
  base URL it is addressed to \<open>http://localhost:8008\<close>, not to the stored URL.
\<close>

theorem init_base_url_counterexample:
  "map get_url (gets (test_connection (init (Some ''/file_parse'') default_timeout)
       (demo_world 200 ''{}''))) = [''''] \<and>
   map get_url (gets (test_connection (init None default_timeout) (demo_world 200 ''{}''))) =
     [''http://localhost:8008''] \<and>
   base_url (init None default_timeout) = ''http://localhost:8008/file_parse''"
  by (simp add: test_connection_def demo_world_def Let_def init_def DEFAULT_BASE_URL_def
      str_replace_def)

text \<open>Claim C10, as amended, at a base URL of the caller's, and at the empty string.\<close>

theorem init_base_url_witness:
  "''http://mineru:9000/file_parse'' \<noteq> '''' \<and>
   base_url (init (Some ''http://mineru:9000/file_parse'') default_timeout) = ''http://mineru:9000/file_parse'' \<and>
   map req_url (requests (parse (init (Some ''http://mineru:9000/file_parse'') default_timeout)
       (demo_world 200 ''{}'') [''a.pdf''] [])) = [''http://mineru:9000/file_parse''] \<and>
   map req_url (requests (parse (init (Some '''') default_timeout)
       (demo_world 200 ''{}'') [''a.pdf''] [])) = [''http://localhost:8008/file_parse''] \<and>
   map get_url (gets (test_connection (init (Some ''http://mineru:9000/file_parse'') default_timeout)
       (demo_world 200 ''{}''))) = [''http://mineru:9000'']"
proof -
  have n1: "length (requests (parse (init (Some ''http://mineru:9000/file_parse'') default_timeout)
      (demo_world 200 ''{}'') [''a.pdf''] [])) = 1"
    by (simp add: requests_parse eval_defs)
  have n2: "length (requests (parse (init (Some '''') default_timeout)
      (demo_world 200 ''{}'') [''a.pdf''] [])) = 1"
    by (simp add: requests_parse eval_defs)
  have u: "str_replace ''http://mineru:9000/file_parse'' ''/file_parse'' '''' = ''http://mineru:9000''"
    by (simp add: str_replace_def)
  from init_base_url [of default_timeout "''http://mineru:9000/file_parse''"
         "Some ''http://mineru:9000/file_parse''" "demo_world 200 ''{}''" "[''a.pdf'']" "[]"]
       init_base_url [of default_timeout "''http://mineru:9000/file_parse''"
         "Some ''''" "demo_world 200 ''{}''" "[''a.pdf'']" "[]"] n1 n2 u
  show ?thesis by simp
qed

end
